theory Spec2Isabelle
  imports Main "HOL-Library.Word" "HOL-Library.Sublist"
begin

section \<open>The fixed-primary Leaser of litefs (fixedprimary/fixedprimary.go)\<close>

text \<open>
  The package implements the Leaser contract for a deployment whose primary is fixed:
  a node learns the identity of the primary by an HTTP request to a local endpoint and
  is primary exactly when that identity is its own id. The embedding follows the Go
  source function by function. What the source takes from its environment is a
  parameter of the model:
  \<^item> the network is a function from the requested URL to what \<^verbatim>\<open>http.Get\<close>
    and \<^verbatim>\<open>io.ReadAll\<close> give back for it;
  \<^item> the clock is the value \<^verbatim>\<open>time.Now()\<close> returns at the call;
  \<^item> a method with a pointer receiver takes the pointed-to struct and returns it
    updated; a method with a value receiver works on a copy.
\<close>

subsection \<open>Data\<close>

text \<open>\<^verbatim>\<open>time.Time\<close> instants, in nanoseconds on the clock's axis.\<close>

type_synonym time = int

text \<open>\<^verbatim>\<open>time.Duration\<close> is Go's \<^verbatim>\<open>int64\<close>, a count of nanoseconds.\<close>

type_synonym Duration = "64 word"

text \<open>Addresses of heap objects (the \<^verbatim>\<open>*Leaser\<close> a Lease keeps).\<close>

type_synonym addr = nat

text \<open>
  \<^verbatim>\<open>type Leaser struct { primaryURL string; id string; primaryID string }\<close>.
  The field \<^verbatim>\<open>id\<close> is named \<open>id_Leaser\<close>, since \<open>id\<close> is HOL's identity
  function.
\<close>

record Leaser =
  primaryURL :: string
  id_Leaser :: string
  primaryID :: string

text \<open>\<^verbatim>\<open>type Lease struct { leaser *Leaser; renewedAt time.Time }\<close>\<close>

record Lease =
  leaser :: addr
  renewedAt :: time

text \<open>
  The two errors of package litefs that the Leaser returns
  (\<^verbatim>\<open>litefs.ErrNoPrimary\<close>, \<^verbatim>\<open>litefs.ErrPrimaryExists\<close>).
\<close>

datatype error = ErrNoPrimary | ErrPrimaryExists

text \<open>
  What the network gives for one GET request. \<open>GetError\<close>: \<^verbatim>\<open>http.Get\<close>
  returned a non-nil error. \<open>Response body failed\<close>: it returned a response, and
  \<^verbatim>\<open>io.ReadAll(resp.Body)\<close> returned the bytes \<open>body\<close> read so far together with a
  non-nil error iff \<open>failed\<close>.
\<close>

datatype http_result = GetError | Response string bool

text \<open>The effects of a call that are visible outside the process, in order.\<close>

datatype event = HttpGet string | LogPrintf string | BodyClose

subsection \<open>Leaser\<close>

definition NewLeaser :: "string \<Rightarrow> string \<Rightarrow> Leaser" where
  "NewLeaser url ident = \<lparr>primaryURL = url, id_Leaser = ident, primaryID = ''''\<rparr>"

definition Close_Leaser :: "Leaser \<Rightarrow> error option" where
  "Close_Leaser l = None"

definition AdvertiseURL :: "Leaser \<Rightarrow> string" where
  "AdvertiseURL l = ''''"

definition IsPrimary :: "Leaser \<Rightarrow> bool" where
  "IsPrimary l = (primaryID l = id_Leaser l)"

definition PrimaryURL :: "Leaser \<Rightarrow> string \<times> error option" where
  "PrimaryURL l = (if primaryID l = '''' then ('''', None) else (primaryURL l, None))"

text \<open>The address \<^verbatim>\<open>Acquire\<close> requests: a literal of the source.\<close>

definition instance_id_url :: string where
  "instance_id_url = ''http://localhost:20101/instance/id''"

text \<open>
  \<^verbatim>\<open>func (l *Leaser) Acquire(ctx context.Context) (litefs.Lease, error)\<close>.
  \<open>net\<close> is the network, \<open>now\<close> the clock's reading, \<open>a\<close> the receiver pointer and
  \<open>l\<close> the struct it points to. The result is the returned pair (an error, or the
  Lease with a nil error), the struct after the call, and the effects in order. The
  error of \<^verbatim>\<open>io.ReadAll\<close> is assigned and never read; the deferred
  \<^verbatim>\<open>resp.Body.Close()\<close> runs when the function returns.
\<close>

definition Acquire ::
  "(string \<Rightarrow> http_result) \<Rightarrow> time \<Rightarrow> addr \<Rightarrow> Leaser \<Rightarrow> (error + Lease) \<times> Leaser \<times> event list" where
  "Acquire net now a l =
     (case net instance_id_url of
        GetError \<Rightarrow>
          (Inl ErrNoPrimary, l,
           [HttpGet instance_id_url, LogPrintf ''Failed to reach primary for instance id''])
      | Response body failed \<Rightarrow>
          (let l' = l\<lparr>primaryID := body\<rparr> in
           if \<not> IsPrimary l' then
             (Inl ErrPrimaryExists, l', [HttpGet instance_id_url, BodyClose])
           else
             (Inr \<lparr>leaser = a, renewedAt = now\<rparr>, l', [HttpGet instance_id_url, BodyClose])))"

text \<open>The three components of what \<open>Acquire\<close> gives.\<close>

definition returned :: "(error + Lease) \<times> Leaser \<times> event list \<Rightarrow> error + Lease" where
  "returned r = fst r"

definition leaser_after :: "(error + Lease) \<times> Leaser \<times> event list \<Rightarrow> Leaser" where
  "leaser_after r = fst (snd r)"

definition effects :: "(error + Lease) \<times> Leaser \<times> event list \<Rightarrow> event list" where
  "effects r = snd (snd r)"

text \<open>The URLs requested among a list of effects.\<close>

fun requested :: "event list \<Rightarrow> string list" where
  "requested [] = []"
| "requested (HttpGet u # es) = u # requested es"
| "requested (e # es) = requested es"

text \<open>The primary identity a call observes: the bytes read, if the request got a response.\<close>

fun observed :: "http_result \<Rightarrow> string option" where
  "observed GetError = None"
| "observed (Response body failed) = Some body"

text \<open>
  A network in which only the backend's endpoint is up: a request to the address
  \<open>Acquire\<close> uses gives \<open>r\<close>, a request to any other address fails.
\<close>

definition backend :: "http_result \<Rightarrow> string \<Rightarrow> http_result" where
  "backend r u = (if u = instance_id_url then r else GetError)"

subsection \<open>Lease\<close>

definition RenewedAt :: "Lease \<Rightarrow> time" where
  "RenewedAt l = renewedAt l"

text \<open>\<^verbatim>\<open>return math.MaxInt64\<close>, as a \<^verbatim>\<open>time.Duration\<close>.\<close>

definition TTL :: "Lease \<Rightarrow> Duration" where
  "TTL l = 9223372036854775807"

text \<open>
  \<^verbatim>\<open>func (l Lease) Renew(ctx context.Context) error { l.renewedAt = time.Now(); return nil }\<close>.
  \<open>Renew_body\<close> is the body of the method, run on the receiver \<open>l\<close>: it gives the
  returned error and the receiver after the assignment.
\<close>

definition Renew_body :: "time \<Rightarrow> Lease \<Rightarrow> error option \<times> Lease" where
  "Renew_body now l = (None, l\<lparr>renewedAt := now\<rparr>)"

text \<open>
  The receiver of \<^verbatim>\<open>Renew\<close> is a value (\<^verbatim>\<open>l Lease\<close>, not \<^verbatim>\<open>l *Lease\<close>), and
  \<open>Acquire\<close> returns the struct itself inside the interface value: Go copies the
  caller's Lease into the receiver, the body updates the copy, and the copy is dropped
  at return. \<open>Renew\<close> is the call as the caller sees it: the returned error, and the
  caller's Lease after the call.
\<close>

definition Renew :: "time \<Rightarrow> Lease \<Rightarrow> error option \<times> Lease" where
  "Renew now l = (fst (Renew_body now l), l)"

definition Close_Lease :: "Lease \<Rightarrow> error option" where
  "Close_Lease l = None"

section \<open>The read-only replica test (cmd/litefs/main_test.go)\<close>




section \<open>Properties\<close>

lemma Acquire_GetError:
  "net instance_id_url = GetError \<Longrightarrow>
   Acquire net now a l =
     (Inl ErrNoPrimary, l,
      [HttpGet instance_id_url, LogPrintf ''Failed to reach primary for instance id''])"
  by (simp add: Acquire_def)

lemma Acquire_Response_other:
  "net instance_id_url = Response body failed \<Longrightarrow> body \<noteq> id_Leaser l \<Longrightarrow>
   Acquire net now a l =
     (Inl ErrPrimaryExists, l\<lparr>primaryID := body\<rparr>, [HttpGet instance_id_url, BodyClose])"
  by (simp add: Acquire_def IsPrimary_def)

lemma Acquire_Response_self:
  "net instance_id_url = Response body failed \<Longrightarrow> body = id_Leaser l \<Longrightarrow>
   Acquire net now a l =
     (Inr \<lparr>leaser = a, renewedAt = now\<rparr>, l\<lparr>primaryID := body\<rparr>,
      [HttpGet instance_id_url, BodyClose])"
  by (simp add: Acquire_def IsPrimary_def)

lemma returned_Inr_iff:
  "(\<exists>lease. returned (Acquire net now a l) = Inr lease) \<longleftrightarrow>
   observed (net instance_id_url) = Some (id_Leaser l)"
  by (cases "net instance_id_url")
     (auto simp: Acquire_def returned_def IsPrimary_def Let_def)

lemma leaser_after_observed:
  "observed (net instance_id_url) = Some p \<Longrightarrow>
   leaser_after (Acquire net now a l) = l\<lparr>primaryID := p\<rparr>"
  by (cases "net instance_id_url") (simp_all add: Acquire_def leaser_after_def Let_def)

text \<open>
  C1. Two Leasers with distinct ids that observe the same primary identity are never
  both primary. With the same string \<open>p\<close> stored in \<open>primaryID\<close>, at most one
  \<open>IsPrimary\<close> is true; of two \<open>Acquire\<close> calls (at any times, through any
  networks) that observe the same identity from the backend, at most one returns a
  Lease; and after two calls that both read the identity \<open>p\<close>, at most one Leaser is
  primary.
\<close>

theorem at_most_one_primary:
  "id_Leaser l1 \<noteq> id_Leaser l2 \<Longrightarrow>
   \<not> (IsPrimary (l1\<lparr>primaryID := p\<rparr>) \<and> IsPrimary (l2\<lparr>primaryID := p\<rparr>)) \<and>
   (observed (net1 instance_id_url) = observed (net2 instance_id_url) \<longrightarrow>
      \<not> ((\<exists>lease. returned (Acquire net1 t1 a1 l1) = Inr lease) \<and>
         (\<exists>lease. returned (Acquire net2 t2 a2 l2) = Inr lease))) \<and>
   (observed (net1 instance_id_url) = Some p \<and> observed (net2 instance_id_url) = Some p \<longrightarrow>
      \<not> (IsPrimary (leaser_after (Acquire net1 t1 a1 l1)) \<and>
         IsPrimary (leaser_after (Acquire net2 t2 a2 l2))))"
proof (intro conjI impI)
  assume distinct_ids: "id_Leaser l1 \<noteq> id_Leaser l2"
  then show stored: "\<not> (IsPrimary (l1\<lparr>primaryID := p\<rparr>) \<and> IsPrimary (l2\<lparr>primaryID := p\<rparr>))"
    by (auto simp: IsPrimary_def)
  {
    assume same: "observed (net1 instance_id_url) = observed (net2 instance_id_url)"
    show "\<not> ((\<exists>lease. returned (Acquire net1 t1 a1 l1) = Inr lease) \<and>
             (\<exists>lease. returned (Acquire net2 t2 a2 l2) = Inr lease))"
    proof
      assume "(\<exists>lease. returned (Acquire net1 t1 a1 l1) = Inr lease) \<and>
              (\<exists>lease. returned (Acquire net2 t2 a2 l2) = Inr lease)"
      then have "observed (net1 instance_id_url) = Some (id_Leaser l1)"
        and "observed (net2 instance_id_url) = Some (id_Leaser l2)"
        by (simp_all add: returned_Inr_iff)
      with same distinct_ids show False by simp
    qed
  }
  {
    assume "observed (net1 instance_id_url) = Some p \<and> observed (net2 instance_id_url) = Some p"
    then have "leaser_after (Acquire net1 t1 a1 l1) = l1\<lparr>primaryID := p\<rparr>"
      and "leaser_after (Acquire net2 t2 a2 l2) = l2\<lparr>primaryID := p\<rparr>"
      by (simp_all add: leaser_after_observed)
    with stored show "\<not> (IsPrimary (leaser_after (Acquire net1 t1 a1 l1)) \<and>
        IsPrimary (leaser_after (Acquire net2 t2 a2 l2)))"
      by simp
  }
qed

text \<open>
  The theorem at two nodes \<open>node1\<close> and \<open>node2\<close> while the backend names \<open>node1\<close>:
  the first acquires, the second does not.
\<close>

theorem at_most_one_primary_witness:
  "id_Leaser (NewLeaser ''http://primary:20202'' ''node1'') \<noteq>
     id_Leaser (NewLeaser ''http://primary:20202'' ''node2'') \<and>
   IsPrimary ((NewLeaser ''http://primary:20202'' ''node1'')\<lparr>primaryID := ''node1''\<rparr>) \<and>
   \<not> IsPrimary ((NewLeaser ''http://primary:20202'' ''node2'')\<lparr>primaryID := ''node1''\<rparr>) \<and>
   returned (Acquire (backend (Response ''node1'' False)) 5 1 (NewLeaser ''http://primary:20202'' ''node1''))
     = Inr \<lparr>leaser = 1, renewedAt = 5\<rparr> \<and>
   \<not> (\<exists>lease. returned (Acquire (backend (Response ''node1'' False)) 7 2
          (NewLeaser ''http://primary:20202'' ''node2'')) = Inr lease)"
  using at_most_one_primary [of "NewLeaser ''http://primary:20202'' ''node1''"
      "NewLeaser ''http://primary:20202'' ''node2''" "''node1''"
      "backend (Response ''node1'' False)" "backend (Response ''node1'' False)" 5 1 7 2]
  by (simp add: NewLeaser_def IsPrimary_def Acquire_def returned_def backend_def)

text \<open>
  C2. \<open>Acquire\<close> has exactly three outcomes, and the backend decides which:
  \<open>ErrNoPrimary\<close> iff the request to the backend failed; \<open>ErrPrimaryExists\<close> iff
  the backend answered with an identity other than this node's id; and a Lease with a
  nil error (held by this Leaser, renewed at the time of the call) iff it answered with
  this node's id.
\<close>

theorem Acquire_outcomes:
  "(returned (Acquire net now a l) = Inl ErrNoPrimary \<longleftrightarrow>
      net instance_id_url = GetError) \<and>
   (returned (Acquire net now a l) = Inl ErrPrimaryExists \<longleftrightarrow>
      (\<exists>body failed. net instance_id_url = Response body failed \<and> body \<noteq> id_Leaser l)) \<and>
   (returned (Acquire net now a l) = Inr \<lparr>leaser = a, renewedAt = now\<rparr> \<longleftrightarrow>
      (\<exists>failed. net instance_id_url = Response (id_Leaser l) failed)) \<and>
   (returned (Acquire net now a l) = Inl ErrNoPrimary \<or>
    returned (Acquire net now a l) = Inl ErrPrimaryExists \<or>
    returned (Acquire net now a l) = Inr \<lparr>leaser = a, renewedAt = now\<rparr>)"
proof (cases "net instance_id_url")
  case GetError
  then show ?thesis
    by (simp add: Acquire_GetError returned_def)
next
  case (Response body failed)
  show ?thesis
  proof (cases "body = id_Leaser l")
    case True
    with Response show ?thesis
      by (simp add: Acquire_Response_self returned_def)
  next
    case False
    with Response show ?thesis
      by (simp add: Acquire_Response_other returned_def)
  qed
qed

text \<open>
  The three outcomes at the node \<open>node1\<close>: the backend is down, it names \<open>node2\<close>,
  it names \<open>node1\<close>.
\<close>

theorem Acquire_outcomes_witness:
  "returned (Acquire (backend GetError) 5 1 (NewLeaser ''http://primary:20202'' ''node1''))
     = Inl ErrNoPrimary \<and>
   returned (Acquire (backend (Response ''node2'' False)) 5 1 (NewLeaser ''http://primary:20202'' ''node1''))
     = Inl ErrPrimaryExists \<and>
   returned (Acquire (backend (Response ''node1'' False)) 5 1 (NewLeaser ''http://primary:20202'' ''node1''))
     = Inr \<lparr>leaser = 1, renewedAt = 5\<rparr>"
  using Acquire_outcomes [of "backend GetError" 5 1 "NewLeaser ''http://primary:20202'' ''node1''"]
    Acquire_outcomes [of "backend (Response ''node2'' False)" 5 1 "NewLeaser ''http://primary:20202'' ''node1''"]
    Acquire_outcomes [of "backend (Response ''node1'' False)" 5 1 "NewLeaser ''http://primary:20202'' ''node1''"]
  by (simp add: NewLeaser_def Acquire_def returned_def IsPrimary_def backend_def)

lemma Renew_unchanged: "Renew now l = (None, l)"
  by (simp add: Renew_def Renew_body_def)

lemma Renew_body_sets: "RenewedAt (snd (Renew_body now l)) = now"
  by (simp add: Renew_body_def RenewedAt_def)

text \<open>
  C3. A Lease acquired at time 100 and renewed at time 200: \<open>Renew\<close> returns nil,
  and \<open>RenewedAt\<close> of the caller's Lease still gives 100, the time of the
  acquisition. The assignment in the body of \<open>Renew\<close> reaches only the receiver's
  copy.
\<close>

theorem Renew_keeps_acquisition_time:
  "returned (Acquire (backend (Response ''node1'' False)) 100 1
      (NewLeaser ''http://primary:20202'' ''node1'')) = Inr \<lparr>leaser = 1, renewedAt = 100\<rparr> \<and>
   fst (Renew 200 \<lparr>leaser = 1, renewedAt = 100\<rparr>) = None \<and>
   RenewedAt (snd (Renew 200 \<lparr>leaser = 1, renewedAt = 100\<rparr>)) = 100 \<and>
   RenewedAt (snd (Renew_body 200 \<lparr>leaser = 1, renewedAt = 100\<rparr>)) = 200"
  by (simp add: Renew_unchanged Renew_body_def RenewedAt_def NewLeaser_def Acquire_def
      returned_def IsPrimary_def backend_def)

text \<open>
  C4. The Lease of the fixed-primary Leaser has the largest TTL there is: \<open>TTL\<close>
  returns \<^verbatim>\<open>math.MaxInt64\<close> nanoseconds for every Lease, no \<^verbatim>\<open>time.Duration\<close> is
  longer, and so no instant that a Duration can measure from \<open>renewedAt\<close> lies past
  \<open>renewedAt + TTL\<close>.
\<close>

theorem TTL_is_max_duration:
  "sint (TTL l) = 2 ^ 63 - 1 \<and>
   (\<forall>d :: Duration. sint d \<le> sint (TTL l)) \<and>
   (\<forall>d :: Duration. RenewedAt l + sint d \<le> RenewedAt l + sint (TTL l))"
proof -
  have max: "sint (TTL l) = 2 ^ 63 - 1"
    by (simp add: TTL_def)
  have "sint d \<le> sint (TTL l)" for d :: Duration
    using sint_lt [of d] by (simp add: max)
  then show ?thesis
    using max by simp
qed

text \<open>
  C5. An \<open>Acquire\<close> that fails with \<open>ErrNoPrimary\<close> leaves the Leaser as it was:
  the struct, and so the stored \<open>primaryID\<close> and what \<open>IsPrimary\<close> and
  \<open>PrimaryURL\<close> return afterwards, are those from before the call.
\<close>

theorem Acquire_NoPrimary_unchanged:
  "returned (Acquire net now a l) = Inl ErrNoPrimary \<Longrightarrow>
   leaser_after (Acquire net now a l) = l \<and>
   primaryID (leaser_after (Acquire net now a l)) = primaryID l \<and>
   IsPrimary (leaser_after (Acquire net now a l)) = IsPrimary l \<and>
   PrimaryURL (leaser_after (Acquire net now a l)) = PrimaryURL l"
proof -
  assume "returned (Acquire net now a l) = Inl ErrNoPrimary"
  then have "net instance_id_url = GetError"
    by (cases "net instance_id_url")
       (auto simp: Acquire_def returned_def Let_def split: if_splits)
  then have "leaser_after (Acquire net now a l) = l"
    by (simp add: Acquire_GetError leaser_after_def)
  then show ?thesis by simp
qed

text \<open>
  The theorem at a node that was primary when the backend went down: it is still
  primary and still answers with the configured URL.
\<close>

theorem Acquire_NoPrimary_unchanged_witness:
  "returned (Acquire (backend GetError) 9 1
      \<lparr>primaryURL = ''http://primary:20202'', id_Leaser = ''node1'', primaryID = ''node1''\<rparr>)
     = Inl ErrNoPrimary \<and>
   primaryID (leaser_after (Acquire (backend GetError) 9 1
      \<lparr>primaryURL = ''http://primary:20202'', id_Leaser = ''node1'', primaryID = ''node1''\<rparr>))
     = ''node1'' \<and>
   IsPrimary (leaser_after (Acquire (backend GetError) 9 1
      \<lparr>primaryURL = ''http://primary:20202'', id_Leaser = ''node1'', primaryID = ''node1''\<rparr>)) \<and>
   PrimaryURL (leaser_after (Acquire (backend GetError) 9 1
      \<lparr>primaryURL = ''http://primary:20202'', id_Leaser = ''node1'', primaryID = ''node1''\<rparr>))
     = (''http://primary:20202'', None)"
proof -
  have failed: "returned (Acquire (backend GetError) 9 1
      \<lparr>primaryURL = ''http://primary:20202'', id_Leaser = ''node1'', primaryID = ''node1''\<rparr>)
     = Inl ErrNoPrimary"
    by (simp add: Acquire_def returned_def backend_def)
  show ?thesis
    using failed Acquire_NoPrimary_unchanged [OF failed]
    by (simp add: IsPrimary_def PrimaryURL_def)
qed

text \<open>
  C6, as the claim states it, fails when the backend answers with an empty body: the
  node \<open>node1\<close> reaches the backend, \<open>Acquire\<close> returns \<open>ErrPrimaryExists\<close>, and
  \<open>PrimaryURL\<close> afterwards gives the empty string, not the configured URL.
\<close>

theorem PrimaryURL_empty_identity_counterexample:
  "returned (Acquire (backend (Response '''' False)) 5 1
      (NewLeaser ''http://primary:20202'' ''node1'')) = Inl ErrPrimaryExists \<and>
   PrimaryURL (leaser_after (Acquire (backend (Response '''' False)) 5 1
      (NewLeaser ''http://primary:20202'' ''node1''))) = ('''', None) \<and>
   PrimaryURL (leaser_after (Acquire (backend (Response '''' False)) 5 1
      (NewLeaser ''http://primary:20202'' ''node1''))) \<noteq> (''http://primary:20202'', None)"
  by (simp add: NewLeaser_def Acquire_def returned_def leaser_after_def IsPrimary_def
      PrimaryURL_def backend_def)

text \<open>
  C6, amended. \<open>PrimaryURL\<close> answers from the identity last read from the backend,
  whether or not this node is the primary: after an \<open>Acquire\<close> that got a response
  with a nonempty body (it returned a Lease or \<open>ErrPrimaryExists\<close>) it gives the
  configured \<open>primaryURL\<close> with a nil error; after one that got a response with an
  empty body, and on a new Leaser, it gives the empty string with a nil error.
\<close>

theorem PrimaryURL_after_Acquire:
  "PrimaryURL (NewLeaser url ident) = ('''', None) \<and>
   (net instance_id_url = Response body failed \<longrightarrow>
      returned (Acquire net now a l) \<noteq> Inl ErrNoPrimary \<and>
      PrimaryURL (leaser_after (Acquire net now a l)) =
        (if body = '''' then ('''', None) else (primaryURL l, None)))"
proof (intro conjI impI)
  show "PrimaryURL (NewLeaser url ident) = ('''', None)"
    by (simp add: PrimaryURL_def NewLeaser_def)
next
  assume reached: "net instance_id_url = Response body failed"
  then show "returned (Acquire net now a l) \<noteq> Inl ErrNoPrimary"
    by (simp add: Acquire_def returned_def Let_def)
  from reached have "leaser_after (Acquire net now a l) = l\<lparr>primaryID := body\<rparr>"
    by (simp add: Acquire_def leaser_after_def Let_def)
  then show "PrimaryURL (leaser_after (Acquire net now a l)) =
      (if body = '''' then ('''', None) else (primaryURL l, None))"
    by (simp add: PrimaryURL_def)
qed

text \<open>
  The theorem at the replica \<open>node2\<close> while the backend names \<open>node1\<close>: the call
  returns \<open>ErrPrimaryExists\<close> and \<open>PrimaryURL\<close> gives the configured URL.
\<close>

theorem PrimaryURL_after_Acquire_witness:
  "backend (Response ''node1'' False) instance_id_url = Response ''node1'' False \<and>
   returned (Acquire (backend (Response ''node1'' False)) 5 2
      (NewLeaser ''http://primary:20202'' ''node2'')) = Inl ErrPrimaryExists \<and>
   PrimaryURL (leaser_after (Acquire (backend (Response ''node1'' False)) 5 2
      (NewLeaser ''http://primary:20202'' ''node2''))) = (''http://primary:20202'', None)"
proof -
  have reached: "backend (Response ''node1'' False) instance_id_url = Response ''node1'' False"
    by (simp add: backend_def)
  have "returned (Acquire (backend (Response ''node1'' False)) 5 2
      (NewLeaser ''http://primary:20202'' ''node2'')) = Inl ErrPrimaryExists"
    by (simp add: Acquire_def returned_def NewLeaser_def IsPrimary_def backend_def)
  then show ?thesis
    using reached
      PrimaryURL_after_Acquire [of "''http://primary:20202''" "''node2''"
        "backend (Response ''node1'' False)" "''node1''" False 5 2
        "NewLeaser ''http://primary:20202'' ''node2''"]
    by (simp add: NewLeaser_def)
qed




text \<open>
  C9. The URL a Leaser is configured with plays no part in \<open>Acquire\<close>: the one
  request of every call goes to the literal address of the source; a different
  \<open>primaryURL\<close> changes neither what is returned nor the effects nor the identity
  stored, only the \<open>primaryURL\<close> field that \<open>PrimaryURL\<close> reads later; and what a
  call does depends on the network only at that one address.
\<close>

theorem Acquire_contacts_fixed_address:
  "requested (effects (Acquire net now a l)) = [''http://localhost:20101/instance/id''] \<and>
   returned (Acquire net now a (l\<lparr>primaryURL := u\<rparr>)) = returned (Acquire net now a l) \<and>
   effects (Acquire net now a (l\<lparr>primaryURL := u\<rparr>)) = effects (Acquire net now a l) \<and>
   leaser_after (Acquire net now a (l\<lparr>primaryURL := u\<rparr>)) =
     (leaser_after (Acquire net now a l))\<lparr>primaryURL := u\<rparr> \<and>
   primaryURL (leaser_after (Acquire net now a l)) = primaryURL l \<and>
   (net' instance_id_url = net instance_id_url \<longrightarrow> Acquire net' now a l = Acquire net now a l)"
proof (cases "net instance_id_url")
  case GetError
  then show ?thesis
    by (simp add: Acquire_def returned_def effects_def leaser_after_def instance_id_url_def)
next
  case (Response body failed)
  then show ?thesis
    by (simp add: Acquire_def returned_def effects_def leaser_after_def instance_id_url_def
        IsPrimary_def Let_def)
qed

text \<open>
  The theorem at a node configured with \<open>http://primary:20202\<close>, on a network where
  the host of that URL would name \<open>node2\<close> and the fixed local address names \<open>node1\<close>:
  the node asks the local address, and is primary.
\<close>

theorem Acquire_contacts_fixed_address_witness:
  "((backend (Response ''node1'' False))(''http://primary:20202/instance/id'' := Response ''node2'' False))
      instance_id_url = backend (Response ''node1'' False) instance_id_url \<and>
   requested (effects (Acquire
      ((backend (Response ''node1'' False))(''http://primary:20202/instance/id'' := Response ''node2'' False))
      5 1 (NewLeaser ''http://primary:20202'' ''node1''))) = [''http://localhost:20101/instance/id''] \<and>
   returned (Acquire
      ((backend (Response ''node1'' False))(''http://primary:20202/instance/id'' := Response ''node2'' False))
      5 1 (NewLeaser ''http://primary:20202'' ''node1'')) = Inr \<lparr>leaser = 1, renewedAt = 5\<rparr>"
  using Acquire_contacts_fixed_address [of "backend (Response ''node1'' False)" 5 1
      "NewLeaser ''http://primary:20202'' ''node1''" "''http://primary:20202''"
      "(backend (Response ''node1'' False))(''http://primary:20202/instance/id'' := Response ''node2'' False)"]
  by (simp add: NewLeaser_def Acquire_def returned_def effects_def IsPrimary_def backend_def
      instance_id_url_def)

text \<open>
  C10, as the claim states it, fails when the bytes read before the failure are the
  node's own id: the request succeeds, reading the body returns \<open>node1\<close> and an error,
  and \<open>Acquire\<close> of the node \<open>node1\<close> (a nonempty id) returns a Lease, not
  \<open>ErrPrimaryExists\<close>.
\<close>

theorem Acquire_read_error_counterexample:
  "id_Leaser (NewLeaser ''http://primary:20202'' ''node1'') \<noteq> '''' \<and>
   backend (Response ''node1'' True) instance_id_url = Response ''node1'' True \<and>
   returned (Acquire (backend (Response ''node1'' True)) 5 1
      (NewLeaser ''http://primary:20202'' ''node1'')) = Inr \<lparr>leaser = 1, renewedAt = 5\<rparr> \<and>
   returned (Acquire (backend (Response ''node1'' True)) 5 1
      (NewLeaser ''http://primary:20202'' ''node1'')) \<noteq> Inl ErrPrimaryExists"
  by (simp add: NewLeaser_def Acquire_def returned_def IsPrimary_def backend_def)

text \<open>
  C10, amended. A failure while reading the response body is ignored by \<open>Acquire\<close>:
  the call does what it does when the same bytes are read without a failure. It stores
  the bytes read as the primary identity and never reports the failure; it returns
  \<open>ErrPrimaryExists\<close> when the bytes read differ from the node's id (so whenever
  nothing was read and the id is nonempty), and a Lease when they equal it.
\<close>

theorem Acquire_ignores_read_error:
  "net instance_id_url = Response body True \<Longrightarrow>
   Acquire (net(instance_id_url := Response body False)) now a l = Acquire net now a l \<and>
   primaryID (leaser_after (Acquire net now a l)) = body \<and>
   returned (Acquire net now a l) \<noteq> Inl ErrNoPrimary \<and>
   (body \<noteq> id_Leaser l \<longrightarrow> returned (Acquire net now a l) = Inl ErrPrimaryExists) \<and>
   (body = '''' \<and> id_Leaser l \<noteq> '''' \<longrightarrow> returned (Acquire net now a l) = Inl ErrPrimaryExists) \<and>
   (body = id_Leaser l \<longrightarrow> returned (Acquire net now a l) = Inr \<lparr>leaser = a, renewedAt = now\<rparr>)"
proof -
  assume read_failed: "net instance_id_url = Response body True"
  have same: "Acquire (net(instance_id_url := Response body False)) now a l = Acquire net now a l"
    using read_failed by (simp add: Acquire_def)
  have stored: "primaryID (leaser_after (Acquire net now a l)) = body"
    using read_failed by (simp add: Acquire_def leaser_after_def Let_def)
  have reported: "returned (Acquire net now a l) \<noteq> Inl ErrNoPrimary"
    using read_failed by (simp add: Acquire_def returned_def Let_def)
  have other: "returned (Acquire net now a l) = Inl ErrPrimaryExists" if "body \<noteq> id_Leaser l"
    using read_failed that by (simp add: Acquire_Response_other returned_def)
  have self: "returned (Acquire net now a l) = Inr \<lparr>leaser = a, renewedAt = now\<rparr>"
    if "body = id_Leaser l"
    using read_failed that by (simp add: Acquire_Response_self returned_def)
  from other have differs:
    "body \<noteq> id_Leaser l \<longrightarrow> returned (Acquire net now a l) = Inl ErrPrimaryExists"
    by simp
  from self have equals:
    "body = id_Leaser l \<longrightarrow> returned (Acquire net now a l) = Inr \<lparr>leaser = a, renewedAt = now\<rparr>"
    by simp
  from other have nothing_read:
    "body = '''' \<and> id_Leaser l \<noteq> '''' \<longrightarrow> returned (Acquire net now a l) = Inl ErrPrimaryExists"
    by auto
  from same stored reported differs nothing_read equals show ?thesis
    by (intro conjI)
qed

text \<open>
  The theorem at the node \<open>node1\<close> when the read fails before any byte arrives: the
  empty string is stored as the primary identity and the call returns
  \<open>ErrPrimaryExists\<close>.
\<close>

theorem Acquire_ignores_read_error_witness:
  "backend (Response '''' True) instance_id_url = Response '''' True \<and>
   primaryID (leaser_after (Acquire (backend (Response '''' True)) 5 1
      (NewLeaser ''http://primary:20202'' ''node1''))) = '''' \<and>
   returned (Acquire (backend (Response '''' True)) 5 1
      (NewLeaser ''http://primary:20202'' ''node1'')) = Inl ErrPrimaryExists"
proof -
  have read_failed: "backend (Response '''' True) instance_id_url = Response '''' True"
    by (simp add: backend_def)
  show ?thesis
    using read_failed
      Acquire_ignores_read_error [where net = "backend (Response '''' True)" and body = "''''"
        and now = 5 and a = 1 and l = "NewLeaser ''http://primary:20202'' ''node1''"]
    by (simp add: NewLeaser_def)
qed

end
